theory Spec2Isabelle
  imports Main
begin

section \<open>The progress application of \<^verbatim>\<open>src/js/app.js\<close>\<close>

text \<open>
  The script builds one Vue instance. Its \<^verbatim>\<open>data\<close> function returns the object literal
  \<^verbatim>\<open>{ progress: 0 }\<close>, and its \<^verbatim>\<open>methods\<close> object holds the two functions \<^verbatim>\<open>advance\<close>
  and \<^verbatim>\<open>retreat\<close>, both declared with an empty parameter list.

  Numbers: \<^verbatim>\<open>progress\<close> is a JavaScript Number, a binary64 value. The model covers its
  integer values: the field is an \<^typ>\<open>int\<close>, and \<^verbatim>\<open>Math.min\<close> and \<^verbatim>\<open>Math.max\<close> are
  \<^const>\<open>min\<close> and \<^const>\<open>max\<close>. The model is exact on the integers of magnitude at most
  \<open>2 ^ 53\<close>: there \<open>p + 1\<close> and \<open>p - 1\<close> are representable, except \<open>2 ^ 53 + 1\<close>, which
  binary64 rounds to \<open>2 ^ 53\<close> before \<^verbatim>\<open>Math.min\<close> clamps it to 100, and \<open>- (2 ^ 53) - 1\<close>,
  which it rounds to \<open>- (2 ^ 53)\<close> before \<^verbatim>\<open>Math.max\<close> clamps it to 0, so that the results
  agree. Every state the two methods reach from the initial 0 is in that range. Fractional
  values and integers beyond \<open>2 ^ 53\<close>, where binary64 addition rounds, are outside the
  model, and no statement below is about them: a theorem about an arbitrary state carries
  a bound on \<^verbatim>\<open>progress\<close> as a hypothesis.
\<close>

subsection \<open>Data\<close>

text \<open>The values a caller may pass to a method (a number, a string, nothing, or the DOM
  event that a click handler receives).\<close>

datatype jsval = JSUndefined | JSNumber int | JSString string | JSEvent

text \<open>The reactive data of the instance: the object literal returned by \<^verbatim>\<open>data\<close>.\<close>

record app_state =
  progress :: int

definition data :: app_state where
  "data = \<lparr>progress = 0\<rparr>"

subsection \<open>Methods\<close>

text \<open>
  \<^verbatim>\<open>this.progress = Math.min(this.progress + 1, 100);\<close> On an integer progress of
  magnitude at most \<open>2 ^ 53\<close> this is the number the code stores.
\<close>

definition advance :: "app_state \<Rightarrow> app_state" where
  "advance vm = vm\<lparr>progress := min (progress vm + 1) 100\<rparr>"

text \<open>
  \<^verbatim>\<open>this.progress = Math.max(this.progress - 1, 0);\<close> On an integer progress of
  magnitude at most \<open>2 ^ 53\<close> this is the number the code stores.
\<close>

definition retreat :: "app_state \<Rightarrow> app_state" where
  "retreat vm = vm\<lparr>progress := max (progress vm - 1) 0\<rparr>"

text \<open>
  The \<^verbatim>\<open>methods\<close> object maps the two names to their functions. Both are written
  \<^verbatim>\<open>function() { ... }\<close>: there is no formal parameter, so the actual arguments of a call
  are bound to nothing and the body runs on the instance alone.
\<close>

type_synonym vue_method = "jsval list \<Rightarrow> app_state \<Rightarrow> app_state"

definition methods :: "string \<rightharpoonup> vue_method" where
  "methods = [''advance'' \<mapsto> (\<lambda>arguments. advance), ''retreat'' \<mapsto> (\<lambda>arguments. retreat)]"

text \<open>
  A call \<^verbatim>\<open>app.name(arguments)\<close> of one of the methods above: the method runs and the
  instance is returned updated. Only the \<^verbatim>\<open>methods\<close> object of the script is modelled, not
  the members an instance inherits from Vue or from \<^verbatim>\<open>Object\<close>; a name outside it is
  answered with the \<^verbatim>\<open>TypeError\<close> that a call of an absent member raises.
\<close>

datatype error = TypeError

definition invoke :: "string \<Rightarrow> jsval list \<Rightarrow> app_state \<Rightarrow> error + app_state" where
  "invoke name arguments vm =
     (case methods name of
        None \<Rightarrow> Inl TypeError
      | Some f \<Rightarrow> Inr (f arguments vm))"

text \<open>A finite sequence of calls, processed one at a time; the first error stops it.\<close>

fun run :: "(string \<times> jsval list) list \<Rightarrow> app_state \<Rightarrow> error + app_state" where
  "run [] vm = Inr vm"
| "run ((name, arguments) # rest) vm =
     (case invoke name arguments vm of
        Inl e \<Rightarrow> Inl e
      | Inr vm' \<Rightarrow> run rest vm')"

subsection \<open>The method bodies with the run-time type of the field\<close>

text \<open>
  The script itself points out that \<^verbatim>\<open>progress\<close> can be assigned from outside, so at run
  time the field holds whatever numeric value was stored last. JavaScript has two numeric
  types, Number and BigInt, and its operators check them when they run. The definitions
  below repeat the two bodies with that check written out, so that a body that raises is
  a value of the model. Numbers are again the integer-valued ones.
\<close>

datatype numeric = Number int | BigInt int

record vue_instance =
  progress_field :: numeric

text \<open>
  \<^verbatim>\<open>a + b\<close> and \<^verbatim>\<open>a - b\<close> on numeric operands: both operands must have the same type, and
  mixing a BigInt with a Number raises a \<^verbatim>\<open>TypeError\<close>.
\<close>

fun js_add :: "numeric \<Rightarrow> numeric \<Rightarrow> error + numeric" where
  "js_add (Number a) (Number b) = Inr (Number (a + b))"
| "js_add (BigInt a) (BigInt b) = Inr (BigInt (a + b))"
| "js_add (Number a) (BigInt b) = Inl TypeError"
| "js_add (BigInt a) (Number b) = Inl TypeError"

fun js_sub :: "numeric \<Rightarrow> numeric \<Rightarrow> error + numeric" where
  "js_sub (Number a) (Number b) = Inr (Number (a - b))"
| "js_sub (BigInt a) (BigInt b) = Inr (BigInt (a - b))"
| "js_sub (Number a) (BigInt b) = Inl TypeError"
| "js_sub (BigInt a) (Number b) = Inl TypeError"

text \<open>
  \<^verbatim>\<open>Math.min\<close> and \<^verbatim>\<open>Math.max\<close> convert each argument to a Number first, from left to
  right; that conversion raises a \<^verbatim>\<open>TypeError\<close> on a BigInt.
\<close>

fun to_number :: "numeric \<Rightarrow> error + int" where
  "to_number (Number a) = Inr a"
| "to_number (BigInt a) = Inl TypeError"

definition math_min :: "numeric \<Rightarrow> numeric \<Rightarrow> error + numeric" where
  "math_min x y =
     (case to_number x of
        Inl e \<Rightarrow> Inl e
      | Inr a \<Rightarrow>
          (case to_number y of
             Inl e \<Rightarrow> Inl e
           | Inr b \<Rightarrow> Inr (Number (min a b))))"

definition math_max :: "numeric \<Rightarrow> numeric \<Rightarrow> error + numeric" where
  "math_max x y =
     (case to_number x of
        Inl e \<Rightarrow> Inl e
      | Inr a \<Rightarrow>
          (case to_number y of
             Inl e \<Rightarrow> Inl e
           | Inr b \<Rightarrow> Inr (Number (max a b))))"

text \<open>
  \<^verbatim>\<open>this.progress = Math.min(this.progress + 1, 100);\<close> A raise in the sum or in
  \<^verbatim>\<open>Math.min\<close> leaves the body before the assignment. The arguments of the call are bound
  to nothing.
\<close>

definition advance_dyn :: "jsval list \<Rightarrow> vue_instance \<Rightarrow> error + vue_instance" where
  "advance_dyn arguments vm =
     (case js_add (progress_field vm) (Number 1) of
        Inl e \<Rightarrow> Inl e
      | Inr s \<Rightarrow>
          (case math_min s (Number 100) of
             Inl e \<Rightarrow> Inl e
           | Inr m \<Rightarrow> Inr (vm\<lparr>progress_field := m\<rparr>)))"

text \<open>\<^verbatim>\<open>this.progress = Math.max(this.progress - 1, 0);\<close>\<close>

definition retreat_dyn :: "jsval list \<Rightarrow> vue_instance \<Rightarrow> error + vue_instance" where
  "retreat_dyn arguments vm =
     (case js_sub (progress_field vm) (Number 1) of
        Inl e \<Rightarrow> Inl e
      | Inr s \<Rightarrow>
          (case math_max s (Number 0) of
             Inl e \<Rightarrow> Inl e
           | Inr m \<Rightarrow> Inr (vm\<lparr>progress_field := m\<rparr>)))"

section \<open>Basic facts\<close>

lemma invoke_advance: "invoke ''advance'' arguments vm = Inr (advance vm)"
  by (simp add: invoke_def methods_def)

lemma invoke_retreat: "invoke ''retreat'' arguments vm = Inr (retreat vm)"
  by (simp add: invoke_def methods_def)

lemma progress_advance: "progress (advance vm) = min (progress vm + 1) 100"
  by (simp add: advance_def)

lemma progress_retreat: "progress (retreat vm) = max (progress vm - 1) 0"
  by (simp add: retreat_def)

lemma advance_in_range:
  "0 \<le> progress vm \<Longrightarrow> progress vm \<le> 100 \<Longrightarrow>
   0 \<le> progress (advance vm) \<and> progress (advance vm) \<le> 100"
  by (simp add: progress_advance)

lemma retreat_in_range:
  "0 \<le> progress vm \<Longrightarrow> progress vm \<le> 100 \<Longrightarrow>
   0 \<le> progress (retreat vm) \<and> progress (retreat vm) \<le> 100"
  by (simp add: progress_retreat)

text \<open>Repeating a method \<open>n\<close> times moves by \<open>n\<close>, clamped once.\<close>

lemma progress_advance_funpow:
  "progress vm \<le> 100 \<Longrightarrow> progress ((advance ^^ n) vm) = min (progress vm + int n) 100"
  by (induction n) (auto simp: progress_advance)

lemma progress_retreat_funpow:
  "0 \<le> progress vm \<Longrightarrow> progress ((retreat ^^ n) vm) = max (progress vm - int n) 0"
  by (induction n) (auto simp: progress_retreat)

text \<open>Calling the same method \<open>n\<close> times in a row runs its body \<open>n\<close> times.\<close>

lemma run_replicate_advance:
  "run (replicate n (''advance'', arguments)) vm = Inr ((advance ^^ n) vm)"
proof (induction n arbitrary: vm)
  case 0
  show ?case by simp
next
  case (Suc n)
  have "run (replicate (Suc n) (''advance'', arguments)) vm =
        run (replicate n (''advance'', arguments)) (advance vm)"
    by (simp add: invoke_advance)
  also have "\<dots> = Inr ((advance ^^ n) (advance vm))"
    by (rule Suc.IH)
  finally show ?case by (simp add: funpow_swap1)
qed

lemma run_replicate_retreat:
  "run (replicate n (''retreat'', arguments)) vm = Inr ((retreat ^^ n) vm)"
proof (induction n arbitrary: vm)
  case 0
  show ?case by simp
next
  case (Suc n)
  have "run (replicate (Suc n) (''retreat'', arguments)) vm =
        run (replicate n (''retreat'', arguments)) (retreat vm)"
    by (simp add: invoke_retreat)
  also have "\<dots> = Inr ((retreat ^^ n) (retreat vm))"
    by (rule Suc.IH)
  finally show ?case by (simp add: funpow_swap1)
qed

lemma app_state_eqI: "progress a = progress (b::app_state) \<Longrightarrow> a = b"
  by simp

text \<open>
  A sequence made of calls to the two methods only never raises, and it keeps a
  progress that starts in the interval from 0 to 100 inside it.
\<close>

lemma run_sanctioned:
  "fst ` set calls \<subseteq> {''advance'', ''retreat''} \<Longrightarrow>
   0 \<le> progress vm \<Longrightarrow> progress vm \<le> 100 \<Longrightarrow>
   \<exists>vm'. run calls vm = Inr vm' \<and> 0 \<le> progress vm' \<and> progress vm' \<le> 100"
proof (induction calls arbitrary: vm)
  case Nil
  then show ?case by simp
next
  case (Cons c calls)
  obtain name arguments where c: "c = (name, arguments)" by (cases c)
  from Cons.prems(1) c have name: "name = ''advance'' \<or> name = ''retreat''" by simp
  from Cons.prems(1) have rest: "fst ` set calls \<subseteq> {''advance'', ''retreat''}" by simp
  from name show ?case
  proof
    assume n: "name = ''advance''"
    have "\<exists>vm'. run calls (advance vm) = Inr vm' \<and> 0 \<le> progress vm' \<and> progress vm' \<le> 100"
      using Cons.IH [OF rest] advance_in_range [OF Cons.prems(2,3)] by blast
    then show ?thesis by (simp add: c n invoke_advance)
  next
    assume n: "name = ''retreat''"
    have "\<exists>vm'. run calls (retreat vm) = Inr vm' \<and> 0 \<le> progress vm' \<and> progress vm' \<le> 100"
      using Cons.IH [OF rest] retreat_in_range [OF Cons.prems(2,3)] by blast
    then show ?thesis by (simp add: c n invoke_retreat)
  qed
qed

text \<open>
  The bodies can raise: with a BigInt in the field, the sum \<^verbatim>\<open>this.progress + 1\<close> mixes
  the two numeric types.
\<close>

lemma advance_dyn_BigInt:
  "progress_field vm = BigInt n \<Longrightarrow> advance_dyn arguments vm = Inl TypeError"
  by (simp add: advance_dyn_def)

lemma retreat_dyn_BigInt:
  "progress_field vm = BigInt n \<Longrightarrow> retreat_dyn arguments vm = Inl TypeError"
  by (simp add: retreat_dyn_def)

section \<open>The step argument\<close>

text \<open>
  Claim C5. The methods take no step argument: whatever arguments a call passes,
  \<^verbatim>\<open>advance\<close> maps progress \<open>p\<close> to \<open>min (p + 1) 100\<close> and \<^verbatim>\<open>retreat\<close> maps it to
  \<open>max (p - 1) 0\<close>; the movement is always by exactly 1. Here \<open>p\<close> is any integer of
  magnitude at most \<open>2 ^ 53\<close>, the range on which the integers are the code's numbers.
\<close>

theorem methods_ignore_arguments:
  assumes "- (2 ^ 53) \<le> progress vm" and "progress vm \<le> 2 ^ 53"
  shows "invoke ''advance'' arguments vm =
           Inr (vm\<lparr>progress := min (progress vm + 1) 100\<rparr>) \<and>
         invoke ''retreat'' arguments vm =
           Inr (vm\<lparr>progress := max (progress vm - 1) 0\<rparr>)"
  by (simp add: invoke_def methods_def advance_def retreat_def)

theorem methods_ignore_arguments_witness:
  "invoke ''advance'' [JSNumber 1000] \<lparr>progress = 42\<rparr> = Inr \<lparr>progress = 43\<rparr> \<and>
   invoke ''retreat'' [JSNumber 1000] \<lparr>progress = 42\<rparr> = Inr \<lparr>progress = 41\<rparr>"
  using methods_ignore_arguments [of "\<lparr>progress = 42\<rparr>" "[JSNumber 1000]"] by simp

text \<open>
  Claim C1, as amended. For every initial progress in the interval from 0 to 100 and every
  non-negative step, the call \<^verbatim>\<open>advance(step)\<close> returns normally, sets progress to
  \<open>min (progress + 1) 100\<close> (the step is not read), and the new progress lies between
  0 and 100.
\<close>

theorem advance_with_step:
  assumes "0 \<le> progress vm" and "progress vm \<le> 100" and "0 \<le> step"
  shows "\<exists>vm'. invoke ''advance'' [JSNumber step] vm = Inr vm' \<and>
           progress vm' = min (progress vm + 1) 100 \<and>
           0 \<le> progress vm' \<and> progress vm' \<le> 100"
  using assms by (simp add: invoke_advance progress_advance)

theorem advance_with_step_witness:
  "\<exists>vm'. invoke ''advance'' [JSNumber 5] \<lparr>progress = 0\<rparr> = Inr vm' \<and>
           progress vm' = 1 \<and> 0 \<le> progress vm' \<and> progress vm' \<le> 100"
  using advance_with_step [of "\<lparr>progress = 0\<rparr>" 5] by simp

text \<open>
  The claim as first stated, with \<open>min (progress + step) 100\<close>, fails: from progress 0
  the call \<^verbatim>\<open>advance(5)\<close> leaves progress 1, not 5.
\<close>

theorem advance_with_step_counterexample:
  "invoke ''advance'' [JSNumber 5] \<lparr>progress = 0\<rparr> = Inr \<lparr>progress = 1\<rparr> \<and>
   (1::int) \<noteq> min (0 + 5) 100"
  by (simp add: invoke_advance advance_def)

text \<open>
  Claim C2, as amended. For every initial progress in the interval from 0 to 100 and every
  non-negative step, the call \<^verbatim>\<open>retreat(step)\<close> returns normally, sets progress to
  \<open>max (progress - 1) 0\<close> (the step is not read), and the new progress lies between
  0 and 100.
\<close>

theorem retreat_with_step:
  assumes "0 \<le> progress vm" and "progress vm \<le> 100" and "0 \<le> step"
  shows "\<exists>vm'. invoke ''retreat'' [JSNumber step] vm = Inr vm' \<and>
           progress vm' = max (progress vm - 1) 0 \<and>
           0 \<le> progress vm' \<and> progress vm' \<le> 100"
  using assms by (simp add: invoke_retreat progress_retreat)

theorem retreat_with_step_witness:
  "\<exists>vm'. invoke ''retreat'' [JSNumber 5] \<lparr>progress = 10\<rparr> = Inr vm' \<and>
           progress vm' = 9 \<and> 0 \<le> progress vm' \<and> progress vm' \<le> 100"
  using retreat_with_step [of "\<lparr>progress = 10\<rparr>" 5] by simp

text \<open>
  The claim as first stated, with \<open>max (progress - step) 0\<close>, fails: from progress 10
  the call \<^verbatim>\<open>retreat(5)\<close> leaves progress 9, not 5.
\<close>

theorem retreat_with_step_counterexample:
  "invoke ''retreat'' [JSNumber 5] \<lparr>progress = 10\<rparr> = Inr \<lparr>progress = 9\<rparr> \<and>
   (9::int) \<noteq> max (10 - 5) 0"
  by (simp add: invoke_retreat retreat_def)

text \<open>
  Claim C4, as amended. From the initial state, where progress is 0, the single call
  \<^verbatim>\<open>advance(1000)\<close> sets progress to 1.
\<close>

theorem advance_1000_once:
  "invoke ''advance'' [JSNumber 1000] data = Inr \<lparr>progress = 1\<rparr>"
  by (simp add: invoke_advance advance_def data_def)

text \<open>The claim as first stated says that the same call sets progress to 100.\<close>

theorem advance_1000_counterexample:
  "invoke ''advance'' [JSNumber 1000] data \<noteq> Inr \<lparr>progress = 100\<rparr>"
  by (simp add: invoke_advance advance_def data_def)

section \<open>The invariant\<close>

text \<open>
  Claim C3. The state is created with progress 0, and after any finite sequence of calls
  to \<^verbatim>\<open>advance\<close> and \<^verbatim>\<open>retreat\<close>, with any arguments, from that initial state the sequence
  has returned normally and progress lies between 0 and 100.
\<close>

theorem reachable_in_range:
  assumes "fst ` set calls \<subseteq> {''advance'', ''retreat''}"
  shows "progress data = 0 \<and>
         (\<exists>vm. run calls data = Inr vm \<and> 0 \<le> progress vm \<and> progress vm \<le> 100)"
  using run_sanctioned [OF assms, of data] by (simp add: data_def)

theorem reachable_in_range_witness:
  "progress data = 0 \<and>
   (\<exists>vm. run [(''advance'', []), (''advance'', [JSNumber 1000]), (''retreat'', [JSEvent])] data
            = Inr vm \<and> 0 \<le> progress vm \<and> progress vm \<le> 100)"
  using reachable_in_range
    [of "[(''advance'', []), (''advance'', [JSNumber 1000]), (''retreat'', [JSEvent])]"]
  by simp

section \<open>Boundaries and scenarios\<close>

text \<open>
  Claim C6. The boundaries absorb the default calls: once progress is 100, any number of
  calls \<^verbatim>\<open>advance()\<close> returns normally with progress still 100, and once progress is 0,
  any number of calls \<^verbatim>\<open>retreat()\<close> returns normally with progress still 0.
\<close>

theorem boundaries_absorbing:
  "(progress a = 100 \<longrightarrow> run (replicate n (''advance'', [])) a = Inr a) \<and>
   (progress b = 0 \<longrightarrow> run (replicate m (''retreat'', [])) b = Inr b)"
proof (intro conjI impI)
  assume "progress a = 100"
  then have "progress ((advance ^^ n) a) = progress a"
    by (simp add: progress_advance_funpow)
  then show "run (replicate n (''advance'', [])) a = Inr a"
    by (simp add: run_replicate_advance app_state_eqI)
next
  assume "progress b = 0"
  then have "progress ((retreat ^^ m) b) = progress b"
    by (simp add: progress_retreat_funpow)
  then show "run (replicate m (''retreat'', [])) b = Inr b"
    by (simp add: run_replicate_retreat app_state_eqI)
qed

theorem boundaries_absorbing_witness:
  "run (replicate 7 (''advance'', [])) \<lparr>progress = 100\<rparr> = Inr \<lparr>progress = 100\<rparr> \<and>
   run (replicate 9 (''retreat'', [])) \<lparr>progress = 0\<rparr> = Inr \<lparr>progress = 0\<rparr>"
  using boundaries_absorbing [of "\<lparr>progress = 100\<rparr>" 7 "\<lparr>progress = 0\<rparr>" 9] by simp

text \<open>
  Claim C7. From progress 0, calling \<^verbatim>\<open>advance()\<close> 150 times yields progress 100, not 150;
  from progress 100, calling \<^verbatim>\<open>retreat()\<close> 150 times yields progress 0.
\<close>

theorem advance_retreat_150:
  "run (replicate 150 (''advance'', [])) \<lparr>progress = 0\<rparr> = Inr \<lparr>progress = 100\<rparr> \<and>
   run (replicate 150 (''advance'', [])) \<lparr>progress = 0\<rparr> \<noteq> Inr \<lparr>progress = 150\<rparr> \<and>
   run (replicate 150 (''retreat'', [])) \<lparr>progress = 100\<rparr> = Inr \<lparr>progress = 0\<rparr>"
proof -
  have "progress ((advance ^^ 150) \<lparr>progress = 0\<rparr>) = 100"
    by (simp add: progress_advance_funpow)
  then have up: "(advance ^^ 150) \<lparr>progress = 0\<rparr> = \<lparr>progress = 100\<rparr>"
    by (simp add: app_state_eqI)
  have "progress ((retreat ^^ 150) \<lparr>progress = 100\<rparr>) = 0"
    by (simp add: progress_retreat_funpow)
  then have down: "(retreat ^^ 150) \<lparr>progress = 100\<rparr> = \<lparr>progress = 0\<rparr>"
    by (simp add: app_state_eqI)
  show ?thesis
    by (simp only: run_replicate_advance run_replicate_retreat up down) simp
qed

text \<open>
  Claim C8. From progress 50, calling \<^verbatim>\<open>advance()\<close> and then \<^verbatim>\<open>retreat()\<close> returns progress
  to 50.
\<close>

theorem round_trip_50:
  "run [(''advance'', []), (''retreat'', [])] \<lparr>progress = 50\<rparr> = Inr \<lparr>progress = 50\<rparr>"
  by (simp add: invoke_advance invoke_retreat advance_def retreat_def)

section \<open>Order of composition\<close>

text \<open>
  Claim C9, as amended. For every integer progress in the interval from 0 to 100, calling
  \<^verbatim>\<open>advance()\<close> then \<^verbatim>\<open>retreat()\<close> yields the same final state as calling \<^verbatim>\<open>retreat()\<close>
  then \<^verbatim>\<open>advance()\<close> exactly when progress is at least 1 and at most 99. Fractional
  progress is not covered.
\<close>

theorem order_independent_interior:
  assumes "0 \<le> progress vm" and "progress vm \<le> 100"
  shows "(run [(''advance'', []), (''retreat'', [])] vm =
          run [(''retreat'', []), (''advance'', [])] vm) =
         (1 \<le> progress vm \<and> progress vm \<le> 99)"
  using assms
  by (cases vm) (auto simp: invoke_advance invoke_retreat advance_def retreat_def)

theorem order_independent_interior_witness:
  "run [(''advance'', []), (''retreat'', [])] \<lparr>progress = 50\<rparr> =
   run [(''retreat'', []), (''advance'', [])] \<lparr>progress = 50\<rparr>"
  using order_independent_interior [of "\<lparr>progress = 50\<rparr>"] by simp

text \<open>
  The claim as first stated covers the boundaries too, where it fails: from progress 0,
  advancing then retreating ends at 0, while retreating then advancing ends at 1.
\<close>

theorem order_independent_counterexample:
  "run [(''advance'', []), (''retreat'', [])] \<lparr>progress = 0\<rparr> = Inr \<lparr>progress = 0\<rparr> \<and>
   run [(''retreat'', []), (''advance'', [])] \<lparr>progress = 0\<rparr> = Inr \<lparr>progress = 1\<rparr> \<and>
   run [(''advance'', []), (''retreat'', [])] \<lparr>progress = 0\<rparr> \<noteq>
   run [(''retreat'', []), (''advance'', [])] \<lparr>progress = 0\<rparr>"
  by (simp add: invoke_advance invoke_retreat advance_def retreat_def)

section \<open>Totality\<close>

text \<open>
  Claim C10. Both methods are total and never fail on their domain: for every Number in
  the field (an integer of magnitude at most \<open>2 ^ 53\<close>) and every argument list, the body
  of \<^verbatim>\<open>advance\<close> and the body of \<^verbatim>\<open>retreat\<close>, with the run-time type checks of their
  operators written out, return a state and raise nothing. The state returned is the one
  that \<^const>\<open>advance\<close> and \<^const>\<open>retreat\<close> compute.
\<close>

theorem methods_total:
  assumes "progress_field vm = Number n" and "- (2 ^ 53) \<le> n" and "n \<le> 2 ^ 53"
  shows "advance_dyn arguments vm =
           Inr (vm\<lparr>progress_field := Number (progress (advance \<lparr>progress = n\<rparr>))\<rparr>) \<and>
         retreat_dyn arguments vm =
           Inr (vm\<lparr>progress_field := Number (progress (retreat \<lparr>progress = n\<rparr>))\<rparr>)"
proof
  have "js_add (progress_field vm) (Number 1) = Inr (Number (n + 1))"
    using assms(1) by simp
  then show "advance_dyn arguments vm =
      Inr (vm\<lparr>progress_field := Number (progress (advance \<lparr>progress = n\<rparr>))\<rparr>)"
    by (simp add: advance_dyn_def math_min_def advance_def)
next
  have "js_sub (progress_field vm) (Number 1) = Inr (Number (n - 1))"
    using assms(1) by simp
  then show "retreat_dyn arguments vm =
      Inr (vm\<lparr>progress_field := Number (progress (retreat \<lparr>progress = n\<rparr>))\<rparr>)"
    by (simp add: retreat_dyn_def math_max_def retreat_def)
qed

theorem methods_total_witness:
  "advance_dyn [JSEvent] \<lparr>progress_field = Number 100\<rparr> =
     Inr \<lparr>progress_field = Number 100\<rparr> \<and>
   retreat_dyn [JSEvent] \<lparr>progress_field = Number 100\<rparr> =
     Inr \<lparr>progress_field = Number 99\<rparr>"
  using methods_total [of "\<lparr>progress_field = Number 100\<rparr>" 100 "[JSEvent]"]
  by (simp add: advance_def retreat_def)

end
